theory Spec2Isabelle
  imports
    Complex_Main
    "HOL-Library.Char_ord"
    "HOL-Library.List_Lexorder"
    "HOL-Library.Product_Lexorder"
    "HOL-Library.Multiset"
begin

section \<open>Errors of the driver script\<close>

text \<open>
  The script \<^verbatim>\<open>rtm.py\<close> declares no exception class of its own. What its statements
  can raise comes from the libraries they call: \<^verbatim>\<open>ValueError\<close> from a reduction over a
  zero-size array, \<^verbatim>\<open>IndexError\<close> from a positional index out of bounds and
  \<^verbatim>\<open>OutOfRangeError\<close> from \<^verbatim>\<open>utm.to_latlon\<close>. The other four are error kinds of the
  specification (section 7); no statement of the script raises them.
\<close>

datatype error =
    ValueError | IndexError | OutOfRangeError
  | EmptyVolumeError | NoDataError | InvalidInputError | InconsistentWaveformError

section \<open>The stack volume \<open>S\<close>\<close>

text \<open>
  \<open>S\<close> is an \<^verbatim>\<open>xarray.DataArray\<close> with the four dimensions \<open>x\<close>, \<open>y\<close>, \<open>time\<close> and
  \<open>celerity\<close>, one coordinate array per dimension, and the attribute \<^verbatim>\<open>attrs['UTM']\<close>,
  which is either \<^verbatim>\<open>None\<close> or a dictionary with the keys \<^verbatim>\<open>zone\<close> and
  \<^verbatim>\<open>southern_hemisphere\<close> (lines 102-104 and 133-134 of \<^verbatim>\<open>rtm.py\<close> read both).
  A cell is addressed by one index per dimension; the extent of a dimension is the length
  of its coordinate array. Stack values and coordinates are the real numbers the floats
  denote (a volume holds no NaN); the time coordinate is a time stamp.
\<close>

record UTM_attrs =
  zone :: int
  southern_hemisphere :: bool

type_synonym cell = "nat \<times> nat \<times> nat \<times> nat"

record 'v DataArray =
  x_coords :: "real list"
  y_coords :: "real list"
  time_coords :: "real list"
  celerity_coords :: "real list"
  vals :: "cell \<Rightarrow> 'v"
  UTM :: "UTM_attrs option"

fun x_index :: "cell \<Rightarrow> nat" where
  "x_index (i, j, t, k) = i"

fun y_index :: "cell \<Rightarrow> nat" where
  "y_index (i, j, t, k) = j"

fun time_index :: "cell \<Rightarrow> nat" where
  "time_index (i, j, t, k) = t"

fun celerity_index :: "cell \<Rightarrow> nat" where
  "celerity_index (i, j, t, k) = k"

definition cells :: "'v DataArray \<Rightarrow> cell list" where
  "cells S =
     [(i, j, t, k).
        i \<leftarrow> [0 ..< length (x_coords S)],
        j \<leftarrow> [0 ..< length (y_coords S)],
        t \<leftarrow> [0 ..< length (time_coords S)],
        k \<leftarrow> [0 ..< length (celerity_coords S)]]"


section \<open>The peak step, \<^verbatim>\<open>rtm.py\<close> lines 94-99\<close>

text \<open>
  \<^verbatim>\<open>S.max()\<close>: the maximum over all cells. The reduction of a zero-size array has no
  identity and raises \<^verbatim>\<open>ValueError\<close>.
\<close>

definition S_max :: "real DataArray \<Rightarrow> error + real" where
  "S_max S =
     (case map (vals S) (cells S) of
        [] \<Rightarrow> Inl ValueError
      | v # vs \<Rightarrow> Inr (fold max vs v))"

text \<open>\<^verbatim>\<open>numpy.unique\<close>: the distinct entries in ascending order.\<close>

definition unique :: "nat list \<Rightarrow> nat list" where
  "unique xs = sort (remdups xs)"

text \<open>
  \<^verbatim>\<open>S.where(cond, drop=True)\<close>. With \<^verbatim>\<open>drop=True\<close> xarray takes
  \<^verbatim>\<open>numpy.nonzero\<close> of the condition (the cells where it holds), keeps along every
  dimension the \<^verbatim>\<open>numpy.unique\<close> indices that occur among those cells, selects them
  with \<^verbatim>\<open>isel\<close>, and masks with NaN (here \<open>None\<close>) every remaining cell at which the
  condition fails. The dimensions are cut down independently of each other.
\<close>

definition nonzero :: "'v DataArray \<Rightarrow> (cell \<Rightarrow> bool) \<Rightarrow> cell list" where
  "nonzero S cond = filter cond (cells S)"

definition where_drop :: "real DataArray \<Rightarrow> (cell \<Rightarrow> bool) \<Rightarrow> real option DataArray" where
  "where_drop S cond =
     (let nz = nonzero S cond;
          ix = unique (map x_index nz);
          iy = unique (map y_index nz);
          it = unique (map time_index nz);
          ic = unique (map celerity_index nz)
      in \<lparr> x_coords = map (nth (x_coords S)) ix,
           y_coords = map (nth (y_coords S)) iy,
           time_coords = map (nth (time_coords S)) it,
           celerity_coords = map (nth (celerity_coords S)) ic,
           vals = (\<lambda>(a, b, c, d).
                     if cond (ix ! a, iy ! b, it ! c, ic ! d)
                     then Some (vals S (ix ! a, iy ! b, it ! c, ic ! d)) else None),
           UTM = UTM S \<rparr>)"

text \<open>
  \<^verbatim>\<open>[0, 0, 0, 0].coords\<close> followed by the four reads of lines 96-99: the coordinates of
  the first position along every dimension. Index 0 of a dimension of size 0 raises
  \<^verbatim>\<open>IndexError\<close>.
\<close>

definition first_coords :: "'v DataArray \<Rightarrow> error + real \<times> real \<times> real \<times> real" where
  "first_coords A =
     (if x_coords A = [] \<or> y_coords A = [] \<or> time_coords A = [] \<or> celerity_coords A = []
      then Inl IndexError
      else Inr (hd (x_coords A), hd (y_coords A), hd (time_coords A), hd (celerity_coords A)))"

text \<open>
  Line 94, \<^verbatim>\<open>max_coords = S.where(S == S.max(), drop=True)[0, 0, 0, 0].coords\<close>, with
  the result given as \<open>(max_x, max_y, max_time, max_celerity)\<close>.
\<close>

definition max_coords :: "real DataArray \<Rightarrow> error + real \<times> real \<times> real \<times> real" where
  "max_coords S =
     (case S_max S of
        Inl e \<Rightarrow> Inl e
      | Inr m \<Rightarrow> first_coords (where_drop S (\<lambda>c. vals S c = m)))"

text \<open>The cells that hold the maximum of the volume.\<close>

definition peaks :: "real DataArray \<Rightarrow> cell list" where
  "peaks S = filter (\<lambda>c. Inr (vals S c) = S_max S) (cells S)"




section \<open>De-projection, \<^verbatim>\<open>rtm.py\<close> lines 101-107\<close>

text \<open>
  \<^verbatim>\<open>utm.to_latlon(easting, northing, zone_number, northern)\<close> is a function of the
  \<^verbatim>\<open>utm\<close> library: it returns the pair (latitude, longitude) or raises
  \<^verbatim>\<open>OutOfRangeError\<close>. The model takes it as a parameter.
\<close>

type_synonym to_latlon_fn = "real \<Rightarrow> real \<Rightarrow> int \<Rightarrow> bool \<Rightarrow> error + real \<times> real"

text \<open>
  The \<^verbatim>\<open>if S.attrs['UTM']\<close> of line 102: a dictionary with two keys is true,
  \<^verbatim>\<open>None\<close> is false.
\<close>

definition max_loc :: "to_latlon_fn \<Rightarrow> 'v DataArray \<Rightarrow> real \<Rightarrow> real \<Rightarrow> error + real \<times> real" where
  "max_loc to_latlon S max_x max_y =
     (case UTM S of
        Some u \<Rightarrow> to_latlon max_x max_y (zone u) (\<not> southern_hemisphere u)
      | None \<Rightarrow> Inr (max_y, max_x))"

text \<open>The variables the script holds after line 107.\<close>

record peak_vars =
  max_x :: real
  max_y :: real
  max_time :: real
  max_celerity :: real
  max_location :: "real \<times> real"

definition peak_step :: "to_latlon_fn \<Rightarrow> real DataArray \<Rightarrow> error + peak_vars" where
  "peak_step to_latlon S =
     (case max_coords S of
        Inl e \<Rightarrow> Inl e
      | Inr (mx, my, mt, mc) \<Rightarrow>
          (case max_loc to_latlon S mx my of
             Inl e \<Rightarrow> Inl e
           | Inr loc \<Rightarrow>
               Inr \<lparr> max_x = mx, max_y = my, max_time = mt, max_celerity = mc,
                     max_location = loc \<rparr>))"

section \<open>The constants and calls of the driver script\<close>

definition FREQ_MIN :: real where "FREQ_MIN = 0.5"
definition FREQ_MAX :: real where "FREQ_MAX = 2"
definition DECIMATION_RATE :: real where "DECIMATION_RATE = 0.05"
definition SMOOTH_WIN :: int where "SMOOTH_WIN = 120"
definition AGC_WIN :: int where "AGC_WIN = 250"
definition AGC_METHOD :: string where "AGC_METHOD = ''gismo''"

text \<open>Line 50: \<^verbatim>\<open>agc_params = dict(win_sec=AGC_WIN, method=AGC_METHOD)\<close>.\<close>

record agc_dict =
  win_sec :: int
  agc_method :: string

definition agc_params :: agc_dict where
  "agc_params = \<lparr> win_sec = AGC_WIN, agc_method = AGC_METHOD \<rparr>"

text \<open>
  Lines 52-55: the keyword arguments of the call of \<^verbatim>\<open>process_waveforms\<close> whose result
  \<^verbatim>\<open>st_proc\<close> is the \<^verbatim>\<open>processed_st\<close> of the grid search (the stream \<^verbatim>\<open>st\<close> apart).
\<close>

record process_waveforms_args =
  pw_freqmin :: real
  pw_freqmax :: real
  pw_envelope :: bool
  pw_smooth_win :: int
  pw_decimation_rate :: real
  pw_agc_params :: "agc_dict option"
  pw_normalize :: bool
  pw_plot_steps :: bool

definition process_waveforms_call :: process_waveforms_args where
  "process_waveforms_call =
     \<lparr> pw_freqmin = FREQ_MIN, pw_freqmax = FREQ_MAX, pw_envelope = True,
       pw_smooth_win = SMOOTH_WIN, pw_decimation_rate = DECIMATION_RATE,
       pw_agc_params = None, pw_normalize = True, pw_plot_steps = False \<rparr>"

definition STACK_METHOD :: string where "STACK_METHOD = ''sum''"

text \<open>Line 73, \<^verbatim>\<open># Choose either 'sum' or 'product'\<close>.\<close>

definition stack_methods :: "string set" where
  "stack_methods = {''sum'', ''product''}"

definition CELERITY_LIST :: "int list" where
  "CELERITY_LIST = [295, 300, 305]"

text \<open>
  Lines 81-83: the keyword arguments \<^verbatim>\<open>celerity_list\<close> and \<^verbatim>\<open>stack_method\<close> of the
  call of \<^verbatim>\<open>grid_search\<close>.
\<close>

record grid_search_args =
  gs_celerity_list :: "int list"
  gs_stack_method :: string

definition grid_search_call :: grid_search_args where
  "grid_search_call =
     \<lparr> gs_celerity_list = CELERITY_LIST, gs_stack_method = STACK_METHOD \<rparr>"

section \<open>Waveform acquisition, \<^verbatim>\<open>utils.py\<close>\<close>

text \<open>
  A trace carries the entries of \<^verbatim>\<open>tr.stats\<close> that \<^verbatim>\<open>Stream.sort\<close> reads, and its
  samples. SEED codes are strings, compared as Python compares them (by code point, a
  proper prefix first); a \<^verbatim>\<open>UTCDateTime\<close> is its time stamp. A stream is the list of
  its traces.
\<close>

record Trace =
  stats_network :: string
  stats_station :: string
  stats_location :: string
  stats_channel :: string
  stats_starttime :: int
  stats_endtime :: int
  samples :: "real list"

type_synonym Stream = "Trace list"

text \<open>
  \<^verbatim>\<open>Stream.sort()\<close> with its default keys \<^verbatim>\<open>['network', 'station', 'location',
  'channel', 'starttime', 'endtime']\<close>: obspy loops over the keys in reversed order and
  sorts the traces by the key at hand with the stable \<^verbatim>\<open>list.sort\<close>.
\<close>

definition Stream_sort :: "Stream \<Rightarrow> Stream" where
  "Stream_sort st =
     sort_key stats_network
       (sort_key stats_station
         (sort_key stats_location
           (sort_key stats_channel
             (sort_key stats_starttime
               (sort_key stats_endtime st)))))"

text \<open>The default keys of a trace, in the order of their priority.\<close>

definition default_keys :: "Trace \<Rightarrow> string \<times> string \<times> string \<times> string \<times> int \<times> int" where
  "default_keys tr =
     (stats_network tr, stats_station tr, stats_location tr, stats_channel tr,
      stats_starttime tr, stats_endtime tr)"

text \<open>
  The three clients and the servers behind them. A waveform request is the argument tuple
  \<open>(network, station, location, channel, starttime, endtime)\<close> of \<^verbatim>\<open>get_waveforms\<close>;
  it yields a stream or raises. \<open>FDSNException\<close> stands for that class and its subclasses
  (all caught by line 48), \<open>OtherException\<close> for every other exception, by its class
  name. \<open>FDSN_Client_WATC\<close> is the constructor call of line 45 with the user name and
  password: \<open>None\<close> when the client is created, or the exception it raises.
\<close>

datatype client = iris_client | watc_client | avo_client

datatype exn = FDSNException | OtherException string

type_synonym request = "string \<times> string \<times> string \<times> string \<times> int \<times> int"

record servers =
  FDSN_Client_WATC :: "string option \<Rightarrow> string option \<Rightarrow> exn option"
  get_waveforms :: "client \<Rightarrow> request \<Rightarrow> exn + Stream"

text \<open>
  What a call of \<^verbatim>\<open>gather_waveforms\<close> does: the waveform requests it issued, in their
  order, and how it ended.
\<close>

datatype outcome = Returned_None | Returned Stream | Raised exn

type_synonym run = "(client \<times> request) list \<times> outcome"

text \<open>One call of \<^verbatim>\<open>get_waveforms\<close>, logged; lines 37, 54 and 88.\<close>

definition request1 :: "servers \<Rightarrow> client \<Rightarrow> request \<Rightarrow> (client \<times> request) list \<times> (exn + Stream)" where
  "request1 srv cl r = ([(cl, r)], get_waveforms srv cl r)"

text \<open>
  The loops of lines 76-79 and 81-84, \<^verbatim>\<open>st_out += avo_client.get_waveforms(...)\<close> for
  every request of a list: an exception ends the loop and the call.
\<close>

fun request_each ::
  "servers \<Rightarrow> request list \<Rightarrow> (client \<times> request) list \<Rightarrow> Stream \<Rightarrow>
   (client \<times> request) list \<times> (exn + Stream)" where
  "request_each srv [] issued st_out = (issued, Inr st_out)"
| "request_each srv (r # rs) issued st_out =
     (case get_waveforms srv avo_client r of
        Inl e \<Rightarrow> (issued @ [(avo_client, r)], Inl e)
      | Inr st \<Rightarrow> request_each srv rs (issued @ [(avo_client, r)]) (st_out @ st))"

text \<open>Lines 97-99: \<^verbatim>\<open>st_out.sort()\<close> and \<^verbatim>\<open>return st_out\<close>.\<close>

definition sort_and_return :: "(client \<times> request) list \<times> (exn + Stream) \<Rightarrow> run" where
  "sort_and_return p =
     (case p of
        (issued, Inl e) \<Rightarrow> (issued, Raised e)
      | (issued, Inr st_out) \<Rightarrow> (issued, Returned (Stream_sort st_out)))"

definition gather_waveforms ::
  "servers \<Rightarrow> string \<Rightarrow> string \<Rightarrow> string \<Rightarrow> int \<Rightarrow> int \<Rightarrow>
   string option \<Rightarrow> string option \<Rightarrow> run" where
  "gather_waveforms srv source network station starttime endtime watc_username watc_password =
     (if source = ''IRIS'' then
        sort_and_return
          (request1 srv iris_client (network, station, ''*'', ''BDF,HDF'', starttime, endtime))
      else if source = ''WATC'' then
        (case FDSN_Client_WATC srv watc_username watc_password of
           Some FDSNException \<Rightarrow> ([], Returned_None)
         | Some (OtherException n) \<Rightarrow> ([], Raised (OtherException n))
         | None \<Rightarrow>
             sort_and_return
               (request1 srv watc_client
                  (network, station, ''*'', ''BDF,HDF'', starttime, endtime)))
      else if source = ''AVO'' then
        (if station \<in> set [''ADKI'', ''AKS'', ''DLL'', ''OKIF'', ''SDPI''] then
           (let channel = (if station \<in> set [''DLL'', ''OKIF''] then ''HDF'' else ''BDF'')
            in if station = ''AKS'' then
                 sort_and_return
                   (request_each srv
                      (map (\<lambda>channel. (network, station, '''', channel, starttime, endtime))
                         [''BDF'', ''BDG'', ''BDH'', ''BDI''])
                      [] [])
               else
                 sort_and_return
                   (request_each srv
                      (map (\<lambda>location. (network, station, location, channel, starttime, endtime))
                         [''01'', ''02'', ''03'', ''04'', ''05'', ''06''])
                      [] []))
         else
           sort_and_return
             (request1 srv avo_client (network, station, '''', ''BDF'', starttime, endtime)))
      else ([], Returned_None))"

text \<open>
  The traces that the servers hand out for a list of requests, in the order of the
  requests: what \<^verbatim>\<open>st_out\<close> holds before line 97 when none of the requests raised.
\<close>

definition gathered :: "servers \<Rightarrow> (client \<times> request) list \<Rightarrow> Stream" where
  "gathered srv issued =
     concat
       (map (\<lambda>(cl, r). case get_waveforms srv cl r of Inl e \<Rightarrow> [] | Inr st \<Rightarrow> st) issued)"


section \<open>The grid search\<close>

text \<open>
  A station of the specification's data model (section 3): its identifier, its geographic
  coordinates, its sample rate and its preprocessed waveform.
\<close>

record Station =
  station_id :: string
  station_lon :: real
  station_lat :: real
  station_elevation :: real
  sample_rate :: real
  waveform :: "real list"

text \<open>
  Modelled from the spec: \<^verbatim>\<open>grid_search\<close> of the module \<^verbatim>\<open>grid_utils\<close>, which
  \<^verbatim>\<open>rtm.py\<close> imports and calls in lines 81-83 and which is not among the sources. The
  specification (sections 3 and 4.4) gives it the preprocessed station waveforms, a grid of
  \<open>Nx \<times> Ny\<close> cells and a celerity list, and lets it write a stack value for every
  x index, y index, time sample index and celerity index; the time axis is as long as the
  waveforms. An empty station set is a \<open>NoDataError\<close>, an empty grid or celerity list an
  \<open>InvalidInputError\<close>, a station whose sample rate or length differs from the others'
  an \<open>InconsistentWaveformError\<close>. The stack statistic of steps 1 to 3 is the
  parameter \<open>stack\<close>, the time base of the waveforms the parameter \<open>time_base\<close>.
\<close>

definition grid_search ::
  "(cell \<Rightarrow> real) \<Rightarrow> (nat \<Rightarrow> real) \<Rightarrow> Station list \<Rightarrow> real list \<Rightarrow> real list \<Rightarrow>
   UTM_attrs option \<Rightarrow> real list \<Rightarrow> error + real DataArray" where
  "grid_search stack time_base processed_st grid_x grid_y grid_UTM celerity_list =
     (if processed_st = [] then Inl NoDataError
      else if grid_x = [] \<or> grid_y = [] \<or> celerity_list = [] then Inl InvalidInputError
      else if list_ex
                (\<lambda>s. sample_rate s \<noteq> sample_rate (hd processed_st) \<or>
                     length (waveform s) \<noteq> length (waveform (hd processed_st)))
                processed_st
      then Inl InconsistentWaveformError
      else Inr \<lparr> x_coords = grid_x, y_coords = grid_y,
                 time_coords = map time_base [0 ..< length (waveform (hd processed_st))],
                 celerity_coords = celerity_list,
                 vals = stack, UTM = grid_UTM \<rparr>)"

section \<open>Sample volumes, servers and traces\<close>


text \<open>A geographic volume with a single peak, 7 at the cell \<open>(1, 0, 0, 0)\<close>.\<close>

definition S_one :: "real DataArray" where
  "S_one =
     \<lparr> x_coords = [10, 20], y_coords = [30, 40], time_coords = [5],
       celerity_coords = [300],
       vals = (\<lambda>c. if c = (1, 0, 0, 0) then 7 else 0),
       UTM = None \<rparr>"

text \<open>The same cells on a projected grid, UTM zone 5 of the northern hemisphere.\<close>

definition S_utm :: "real DataArray" where
  "S_utm = S_one \<lparr> UTM := Some \<lparr> zone = 5, southern_hemisphere = False \<rparr> \<rparr>"

text \<open>Volumes of zero size along the x axis and along the time axis.\<close>

definition S_no_x :: "real DataArray" where
  "S_no_x =
     \<lparr> x_coords = [], y_coords = [30, 40], time_coords = [5], celerity_coords = [300],
       vals = (\<lambda>c. 0), UTM = None \<rparr>"

definition S_no_time :: "real DataArray" where
  "S_no_time =
     \<lparr> x_coords = [10, 20], y_coords = [30, 40], time_coords = [], celerity_coords = [300],
       vals = (\<lambda>c. 0), UTM = None \<rparr>"

text \<open>
  A stand-in for \<^verbatim>\<open>utm.to_latlon\<close> that keeps its four arguments visible in its
  result.
\<close>

definition to_latlon_sample :: to_latlon_fn where
  "to_latlon_sample easting northing zone_number northern =
     Inr (northing + of_int zone_number, if northern then easting else - easting)"

text \<open>Two traces of one station, and servers that answer every request with both.\<close>

definition tr_01 :: Trace where
  "tr_01 =
     \<lparr> stats_network = ''AV'', stats_station = ''DLL'', stats_location = ''01'',
       stats_channel = ''HDF'', stats_starttime = 0, stats_endtime = 60, samples = [] \<rparr>"

definition tr_02 :: Trace where
  "tr_02 = tr_01 \<lparr> stats_location := ''02'' \<rparr>"

definition srv_up :: servers where
  "srv_up =
     \<lparr> FDSN_Client_WATC = (\<lambda>user password. None),
       get_waveforms = (\<lambda>cl r. Inr [tr_02, tr_01]) \<rparr>"

text \<open>Servers without a route to the WATC host: creating the client raises.\<close>

definition srv_no_vpn :: servers where
  "srv_no_vpn = srv_up \<lparr> FDSN_Client_WATC := (\<lambda>user password. Some FDSNException) \<rparr>"

text \<open>One station with a waveform of three samples.\<close>

definition sta_1 :: Station where
  "sta_1 =
     \<lparr> station_id = ''DLL'', station_lon = - 153, station_lat = 60, station_elevation = 0,
       sample_rate = 0.05, waveform = [0, 1, 0] \<rparr>"

text \<open>
  A volume of \<open>2 \<times> 2 \<times> 3 \<times> 3\<close> cells over the celerity list of the script and
  the three samples of \<open>sta_1\<close>, with a single peak at the cell \<open>(1, 0, 2, 1)\<close>.
\<close>

definition S_gs :: "real DataArray" where
  "S_gs =
     \<lparr> x_coords = [10, 20], y_coords = [30, 40], time_coords = [0, 1, 2],
       celerity_coords = [295, 300, 305],
       vals = (\<lambda>c. if c = (1, 0, 2, 1) then 3 else 0), UTM = None \<rparr>"


text \<open>
  Two traces that agree on all six default keys and differ in their samples, and servers
  that answer every request with the two, in either order.
\<close>

definition tr_a :: Trace where
  "tr_a = tr_01 \<lparr> samples := [1] \<rparr>"

definition tr_b :: Trace where
  "tr_b = tr_01 \<lparr> samples := [2] \<rparr>"

definition srv_ab :: servers where
  "srv_ab =
     \<lparr> FDSN_Client_WATC = (\<lambda>user password. None),
       get_waveforms = (\<lambda>cl r. Inr [tr_a, tr_b]) \<rparr>"

definition srv_ba :: servers where
  "srv_ba =
     \<lparr> FDSN_Client_WATC = (\<lambda>user password. None),
       get_waveforms = (\<lambda>cl r. Inr [tr_b, tr_a]) \<rparr>"

section \<open>Properties of the peak step\<close>

lemma set_cells:
  "set (cells S) =
     {(i, j, t, k). i < length (x_coords S) \<and> j < length (y_coords S) \<and>
        t < length (time_coords S) \<and> k < length (celerity_coords S)}"
  by (force simp: cells_def)

lemma cells_Nil_iff:
  "cells S = [] \<longleftrightarrow>
     x_coords S = [] \<or> y_coords S = [] \<or> time_coords S = [] \<or> celerity_coords S = []"
proof -
  have "cells S = [] \<longleftrightarrow> set (cells S) = {}" by simp
  also have "\<dots> \<longleftrightarrow>
      x_coords S = [] \<or> y_coords S = [] \<or> time_coords S = [] \<or> celerity_coords S = []"
    unfolding set_cells
    by (auto simp: length_greater_0_conv[symmetric] simp del: length_greater_0_conv)
  finally show ?thesis .
qed

lemma S_max_empty: "cells S = [] \<Longrightarrow> S_max S = Inl ValueError"
  by (simp add: S_max_def)

lemma S_max_Max:
  assumes "cells S \<noteq> []"
  shows "S_max S = Inr (Max (vals S ` set (cells S)))"
proof -
  obtain c cs where cs: "cells S = c # cs"
    using assms by (cases "cells S") auto
  have "fold max (map (vals S) cs) (vals S c) = Max (set (vals S c # map (vals S) cs))"
    by (simp only: Max.set_eq_fold)
  then show ?thesis by (simp add: S_max_def cs)
qed

lemma unique_Nil_iff: "unique xs = [] \<longleftrightarrow> xs = []"
  by (auto simp: unique_def dest: arg_cong[where f = set])

lemma hd_unique:
  assumes "xs \<noteq> []"
  shows "hd (unique xs) = Min (set xs)"
proof -
  have "unique xs \<noteq> []" using assms by (simp add: unique_Nil_iff)
  then obtain u us where u: "unique xs = u # us"
    by (cases "unique xs") auto
  have s: "sorted (unique xs)" and e: "set (unique xs) = set xs"
    by (simp_all add: unique_def)
  have "Min (set (u # us)) = u"
    using s unfolding u by (intro Min_eqI) auto
  then show ?thesis using e u by simp
qed

lemma peaks_nonzero:
  assumes "S_max S = Inr m"
  shows "peaks S = nonzero S (\<lambda>c. vals S c = m)"
  by (simp add: peaks_def nonzero_def assms)

lemma S_max_attained:
  assumes "cells S \<noteq> []"
  shows "\<exists>m. S_max S = Inr m \<and> (\<forall>c\<in>set (cells S). vals S c \<le> m) \<and> peaks S \<noteq> []"
proof -
  let ?V = "vals S ` set (cells S)"
  have fin: "finite ?V" and ne: "?V \<noteq> {}" using assms by simp_all
  have m: "S_max S = Inr (Max ?V)" by (rule S_max_Max[OF assms])
  have "Max ?V \<in> ?V" by (rule Max_in[OF fin ne])
  then obtain c where "c \<in> set (cells S)" "vals S c = Max ?V" by auto
  then have "c \<in> set (peaks S)" by (simp add: peaks_def m)
  then have "peaks S \<noteq> []" by auto
  moreover have "\<forall>c\<in>set (cells S). vals S c \<le> Max ?V" using fin by simp
  ultimately show ?thesis using m by blast
qed

lemma hd_kept:
  assumes "nz \<noteq> []"
  shows "hd (map (nth xs) (unique (map f nz))) = xs ! Min (f ` set nz)"
proof -
  have "unique (map f nz) \<noteq> []" using assms by (simp add: unique_Nil_iff)
  then have "hd (map (nth xs) (unique (map f nz))) = xs ! hd (unique (map f nz))"
    by (rule hd_map)
  also have "hd (unique (map f nz)) = Min (set (map f nz))"
    using assms by (intro hd_unique) simp
  finally show ?thesis by simp
qed

lemma max_coords_Min:
  assumes "S_max S = Inr m" and "peaks S \<noteq> []"
  shows "max_coords S =
     Inr (x_coords S ! Min (x_index ` set (peaks S)),
          y_coords S ! Min (y_index ` set (peaks S)),
          time_coords S ! Min (time_index ` set (peaks S)),
          celerity_coords S ! Min (celerity_index ` set (peaks S)))"
proof -
  let ?nz = "nonzero S (\<lambda>c. vals S c = m)"
  have p: "peaks S = ?nz" by (rule peaks_nonzero[OF assms(1)])
  have ne: "?nz \<noteq> []" using assms(2) p by simp
  show ?thesis
    unfolding max_coords_def assms(1) p
    by (simp add: where_drop_def Let_def first_coords_def unique_Nil_iff ne hd_kept[OF ne])
qed




lemma cells_S_one: "cells S_one = [(0, 0, 0, 0), (0, 1, 0, 0), (1, 0, 0, 0), (1, 1, 0, 0)]"
  by (simp add: cells_def S_one_def upt_rec)

lemma S_max_S_one: "S_max S_one = Inr 7"
  by (simp add: S_max_def cells_S_one) (simp add: S_one_def)

lemma peaks_S_one: "peaks S_one = [(1, 0, 0, 0)]"
  by (simp add: peaks_def cells_S_one S_max_S_one) (simp add: S_one_def)


lemma max_coords_S_one: "max_coords S_one = Inr (20, 30, 5, 300)"
proof -
  have "peaks S_one \<noteq> []" by (simp add: peaks_S_one)
  from max_coords_Min[OF S_max_S_one this] show ?thesis
    by (simp add: peaks_S_one) (simp add: S_one_def)
qed









text \<open>
  C4, as the specification states it, fails: on the volume \<open>S_no_x\<close>, of zero size along
  the x axis, the peak step does not end in \<open>EmptyVolumeError\<close>.
\<close>

theorem max_coords_zero_size_counterexample:
  "x_coords S_no_x = [] \<and> max_coords S_no_x \<noteq> Inl EmptyVolumeError"
  by (simp add: max_coords_def S_max_def cells_def S_no_x_def)

text \<open>
  C4, amended. For every volume of zero size along at least one of its four axes the
  peak step fails, and returns no coordinates: \<^verbatim>\<open>S.max()\<close> raises \<^verbatim>\<open>ValueError\<close>.
\<close>

theorem max_coords_zero_size:
  assumes "x_coords S = [] \<or> y_coords S = [] \<or> time_coords S = [] \<or> celerity_coords S = []"
  shows "max_coords S = Inl ValueError"
proof -
  have "cells S = []" using assms by (simp add: cells_Nil_iff)
  then show ?thesis by (simp add: max_coords_def S_max_empty)
qed

theorem max_coords_zero_size_witness:
  "(x_coords S_no_time = [] \<or> y_coords S_no_time = [] \<or> time_coords S_no_time = [] \<or>
    celerity_coords S_no_time = []) \<and>
   max_coords S_no_time = Inl ValueError"
proof -
  have z: "x_coords S_no_time = [] \<or> y_coords S_no_time = [] \<or> time_coords S_no_time = [] \<or>
      celerity_coords S_no_time = []"
    by (simp add: S_no_time_def)
  from max_coords_zero_size[OF z] z show ?thesis by simp
qed

section \<open>Properties of the de-projection\<close>

lemma cells_UTM_update: "cells (S\<lparr>UTM := u\<rparr>) = cells S"
  by (simp add: cells_def)

lemma S_max_UTM_update: "S_max (S\<lparr>UTM := u\<rparr>) = S_max S"
  by (simp add: S_max_def cells_UTM_update)

lemma first_coords_UTM_update:
  "first_coords (where_drop (S\<lparr>UTM := u\<rparr>) cond) = first_coords (where_drop S cond)"
  by (simp add: where_drop_def nonzero_def cells_UTM_update first_coords_def Let_def)

lemma max_coords_UTM_update: "max_coords (S\<lparr>UTM := u\<rparr>) = max_coords S"
  by (simp add: max_coords_def S_max_UTM_update first_coords_UTM_update split: sum.splits)

lemma max_coords_S_utm: "max_coords S_utm = Inr (20, 30, 5, 300)"
  by (simp add: S_utm_def max_coords_UTM_update max_coords_S_one)

text \<open>
  C2. Let the peak step have found the coordinates \<open>(mx, my, mt, mc)\<close> of the winning cell.
  If the attribute \<open>UTM\<close> of the volume is set, the location is what \<^verbatim>\<open>utm.to_latlon\<close>
  returns for \<open>mx\<close>, \<open>my\<close>, the zone number of the attribute and the negation of its
  southern hemisphere flag (a pair latitude, longitude, or the error it raises). If the
  attribute is \<^verbatim>\<open>None\<close>, the location is \<open>(my, mx)\<close>, the cell's own coordinates with the
  latitude \<open>y\<close> first and the longitude \<open>x\<close> second, and no conversion takes place.
\<close>

theorem peak_step_location:
  assumes "max_coords S = Inr (mx, my, mt, mc)"
  shows "(\<forall>u. UTM S = Some u \<longrightarrow>
            peak_step to_latlon S =
              (case to_latlon mx my (zone u) (\<not> southern_hemisphere u) of
                 Inl e \<Rightarrow> Inl e
               | Inr loc \<Rightarrow>
                   Inr \<lparr> max_x = mx, max_y = my, max_time = mt, max_celerity = mc,
                         max_location = loc \<rparr>)) \<and>
         (UTM S = None \<longrightarrow>
            peak_step to_latlon S =
              Inr \<lparr> max_x = mx, max_y = my, max_time = mt, max_celerity = mc,
                    max_location = (my, mx) \<rparr>)"
  by (simp add: peak_step_def max_loc_def assms)

theorem peak_step_location_witness:
  "max_coords S_one = Inr (20, 30, 5, 300) \<and> UTM S_one = None \<and>
   peak_step to_latlon_sample S_one =
     Inr \<lparr> max_x = 20, max_y = 30, max_time = 5, max_celerity = 300,
           max_location = (30, 20) \<rparr> \<and>
   max_coords S_utm = Inr (20, 30, 5, 300) \<and>
   UTM S_utm = Some \<lparr> zone = 5, southern_hemisphere = False \<rparr> \<and>
   peak_step to_latlon_sample S_utm =
     Inr \<lparr> max_x = 20, max_y = 30, max_time = 5, max_celerity = 300,
           max_location = (35, 20) \<rparr>"
proof -
  have g: "UTM S_one = None" by (simp add: S_one_def)
  have p: "UTM S_utm = Some \<lparr> zone = 5, southern_hemisphere = False \<rparr>"
    by (simp add: S_utm_def)
  have 1: "peak_step to_latlon_sample S_one =
      Inr \<lparr> max_x = 20, max_y = 30, max_time = 5, max_celerity = 300,
            max_location = (30, 20) \<rparr>"
    using peak_step_location[OF max_coords_S_one, of to_latlon_sample] g by simp
  have 2: "peak_step to_latlon_sample S_utm =
      Inr \<lparr> max_x = 20, max_y = 30, max_time = 5, max_celerity = 300,
            max_location = (35, 20) \<rparr>"
    using peak_step_location[OF max_coords_S_utm, of to_latlon_sample] p
    by (simp add: to_latlon_sample_def)
  show ?thesis using g p 1 2 max_coords_S_one max_coords_S_utm by simp
qed

section \<open>Properties of the driver script's calls\<close>

text \<open>
  C3. The script builds the AGC parameters \<^verbatim>\<open>win_sec = 250\<close>, \<^verbatim>\<open>method = 'gismo'\<close>, and
  the call of \<^verbatim>\<open>process_waveforms\<close> that produces the input of the grid search is given
  \<^verbatim>\<open>agc_params=None\<close>, not the parameters built.
\<close>

theorem agc_params_not_passed:
  "agc_params = \<lparr> win_sec = 250, agc_method = ''gismo'' \<rparr> \<and>
   pw_agc_params process_waveforms_call = None \<and>
   pw_agc_params process_waveforms_call \<noteq> Some agc_params"
  by (simp add: agc_params_def AGC_WIN_def AGC_METHOD_def process_waveforms_call_def)

text \<open>
  C6. The celerity list handed to the grid search is \<open>[295, 300, 305]\<close>: strictly
  increasing, hence of distinct entries, every one of them greater than zero.
\<close>

theorem celerity_list_increasing_positive:
  "gs_celerity_list grid_search_call = [295, 300, 305] \<and>
   sorted_wrt (<) (gs_celerity_list grid_search_call) \<and>
   distinct (gs_celerity_list grid_search_call) \<and>
   list_all (\<lambda>c. 0 < c) (gs_celerity_list grid_search_call)"
  by (simp add: grid_search_call_def CELERITY_LIST_def)

text \<open>
  C7. The stack method handed to the grid search is \<^verbatim>\<open>'sum'\<close>, one of the two values
  \<^verbatim>\<open>'sum'\<close> and \<^verbatim>\<open>'product'\<close> that line 73 allows.
\<close>

theorem stack_method_allowed:
  "gs_stack_method grid_search_call = ''sum'' \<and>
   gs_stack_method grid_search_call \<in> stack_methods"
  by (simp add: grid_search_call_def STACK_METHOD_def stack_methods_def)

section \<open>Properties of the waveform acquisition\<close>




lemma snd_sort_and_return:
  "snd (sort_and_return p) =
     (case snd p of Inl e \<Rightarrow> Raised e | Inr st_out \<Rightarrow> Returned (Stream_sort st_out))"
  by (cases p) (simp add: sort_and_return_def split: sum.splits)

lemma sort_and_return_not_None: "snd (sort_and_return p) \<noteq> Returned_None"
  by (simp add: snd_sort_and_return split: sum.splits)

lemma gather_waveforms_IRIS:
  "gather_waveforms srv ''IRIS'' network station starttime endtime u p =
     sort_and_return
       (request1 srv iris_client (network, station, ''*'', ''BDF,HDF'', starttime, endtime))"
  by (simp add: gather_waveforms_def)

lemma gather_waveforms_WATC:
  "gather_waveforms srv ''WATC'' network station starttime endtime u p =
     (case FDSN_Client_WATC srv u p of
        Some FDSNException \<Rightarrow> ([], Returned_None)
      | Some (OtherException n) \<Rightarrow> ([], Raised (OtherException n))
      | None \<Rightarrow>
          sort_and_return
            (request1 srv watc_client
               (network, station, ''*'', ''BDF,HDF'', starttime, endtime)))"
  by (simp add: gather_waveforms_def)

lemma gather_waveforms_AVO:
  "gather_waveforms srv ''AVO'' network station starttime endtime u p =
     (if station \<in> set [''ADKI'', ''AKS'', ''DLL'', ''OKIF'', ''SDPI''] then
        (let channel = (if station \<in> set [''DLL'', ''OKIF''] then ''HDF'' else ''BDF'')
         in if station = ''AKS'' then
              sort_and_return
                (request_each srv
                   (map (\<lambda>channel. (network, station, '''', channel, starttime, endtime))
                      [''BDF'', ''BDG'', ''BDH'', ''BDI''])
                   [] [])
            else
              sort_and_return
                (request_each srv
                   (map (\<lambda>location. (network, station, location, channel, starttime, endtime))
                      [''01'', ''02'', ''03'', ''04'', ''05'', ''06''])
                   [] []))
      else
        sort_and_return
          (request1 srv avo_client (network, station, '''', ''BDF'', starttime, endtime)))"
  by (simp add: gather_waveforms_def)

lemma gather_waveforms_unrecognized:
  assumes "source \<noteq> ''IRIS''" "source \<noteq> ''WATC''" "source \<noteq> ''AVO''"
  shows "gather_waveforms srv source network station starttime endtime u p = ([], Returned_None)"
  using assms by (simp add: gather_waveforms_def)

lemma gather_waveforms_AVO_ex:
  "\<exists>q. gather_waveforms srv ''AVO'' network station starttime endtime u p = sort_and_return q"
proof (cases "station \<in> set [''ADKI'', ''AKS'', ''DLL'', ''OKIF'', ''SDPI'']")
  case array: True
  show ?thesis
  proof (cases "station = ''AKS''")
    case True
    show ?thesis
      unfolding gather_waveforms_AVO Let_def if_P[OF array] if_P[OF True] by blast
  next
    case False
    show ?thesis
      unfolding gather_waveforms_AVO Let_def if_P[OF array] if_not_P[OF False] by blast
  qed
next
  case False
  show ?thesis
    unfolding gather_waveforms_AVO if_not_P[OF False] by blast
qed

text \<open>
  A stable sort by the key \<open>f\<close> of a list that is sorted by the key \<open>g\<close> leaves the list
  sorted by the pair \<open>(f, g)\<close>, in the lexicographic order of pairs.
\<close>

lemma sorted_insort_key_pair:
  fixes f :: "'a \<Rightarrow> 'k::linorder" and g :: "'a \<Rightarrow> 'l::linorder"
  assumes "sorted (map (\<lambda>y. (f y, g y)) ys)" and "\<forall>y\<in>set ys. g x \<le> g y"
  shows "sorted (map (\<lambda>y. (f y, g y)) (insort_key f x ys))"
  using assms
proof (induction ys)
  case Nil
  show ?case by simp
next
  case (Cons y ys)
  show ?case
  proof (cases "f x \<le> f y")
    case True
    have xy: "(f x, g x) \<le> (f y, g y)"
      using True Cons.prems(2) by (auto simp: less_eq_prod_def)
    have "\<forall>z\<in>set ys. (f y, g y) \<le> (f z, g z)"
      using Cons.prems(1) by simp
    then have "\<forall>z\<in>set ys. (f x, g x) \<le> (f z, g z)"
      using xy by (meson order_trans)
    then show ?thesis using True xy Cons.prems(1) by simp
  next
    case False
    then have "(f y, g y) \<le> (f x, g x)" by (auto simp: less_eq_prod_def)
    moreover have "sorted (map (\<lambda>y. (f y, g y)) (insort_key f x ys))"
      using Cons.IH Cons.prems by simp
    ultimately show ?thesis using False Cons.prems(1) by (auto simp: set_insort_key)
  qed
qed

lemma sorted_sort_key_pair:
  fixes f :: "'a \<Rightarrow> 'k::linorder" and g :: "'a \<Rightarrow> 'l::linorder"
  assumes "sorted (map g xs)"
  shows "sorted (map (\<lambda>y. (f y, g y)) (sort_key f xs))"
  using assms
proof (induction xs)
  case Nil
  show ?case by simp
next
  case (Cons x xs)
  have "sorted (map (\<lambda>y. (f y, g y)) (sort_key f xs))"
    using Cons by simp
  moreover have "\<forall>y\<in>set (sort_key f xs). g x \<le> g y"
    using Cons.prems by simp
  ultimately show ?case
    by (simp add: sorted_insort_key_pair)
qed

lemma sorted_Stream_sort: "sorted (map default_keys (Stream_sort st))"
proof -
  let ?s6 = "sort_key stats_endtime st"
  let ?s5 = "sort_key stats_starttime ?s6"
  let ?s4 = "sort_key stats_channel ?s5"
  let ?s3 = "sort_key stats_location ?s4"
  let ?s2 = "sort_key stats_station ?s3"
  let ?s1 = "sort_key stats_network ?s2"
  have 6: "sorted (map stats_endtime ?s6)" by (rule sorted_sort_key)
  have 5: "sorted (map (\<lambda>y. (stats_starttime y, stats_endtime y)) ?s5)"
    by (rule sorted_sort_key_pair[OF 6])
  have 4: "sorted (map (\<lambda>y. (stats_channel y, stats_starttime y, stats_endtime y)) ?s4)"
    by (rule sorted_sort_key_pair[OF 5])
  have 3: "sorted (map (\<lambda>y. (stats_location y, stats_channel y, stats_starttime y,
      stats_endtime y)) ?s3)"
    by (rule sorted_sort_key_pair[OF 4])
  have 2: "sorted (map (\<lambda>y. (stats_station y, stats_location y, stats_channel y,
      stats_starttime y, stats_endtime y)) ?s2)"
    by (rule sorted_sort_key_pair[OF 3])
  have 1: "sorted (map (\<lambda>y. (stats_network y, stats_station y, stats_location y,
      stats_channel y, stats_starttime y, stats_endtime y)) ?s1)"
    by (rule sorted_sort_key_pair[OF 2])
  have "default_keys = (\<lambda>y. (stats_network y, stats_station y, stats_location y,
      stats_channel y, stats_starttime y, stats_endtime y))"
    by (rule ext) (simp add: default_keys_def)
  then show ?thesis using 1 by (simp add: Stream_sort_def)
qed

lemma mset_Stream_sort: "mset (Stream_sort st) = mset st"
  by (simp add: Stream_sort_def)

lemma keys_Stream_sort:
  "map default_keys (Stream_sort st) = sort (map default_keys st)"
proof -
  have "mset (map default_keys (Stream_sort st)) = mset (map default_keys st)"
    by (simp add: mset_Stream_sort)
  then show ?thesis
    using sorted_Stream_sort by (rule properties_for_sort[symmetric])
qed

lemma keys_Stream_sort_perm:
  assumes "mset st' = mset st"
  shows "map default_keys (Stream_sort st') = map default_keys (Stream_sort st)"
proof -
  have "mset (map default_keys st') = mset (map default_keys st)"
    using assms by simp
  then have "sort (map default_keys st') = sort (map default_keys st)"
    by (metis properties_for_sort sorted_sort mset_sort)
  then show ?thesis by (simp add: keys_Stream_sort)
qed






text \<open>
  C9. \<^verbatim>\<open>gather_waveforms\<close> returns \<^verbatim>\<open>None\<close> exactly when the source is none of
  \<^verbatim>\<open>'IRIS'\<close>, \<^verbatim>\<open>'WATC'\<close> and \<^verbatim>\<open>'AVO'\<close>, or the source is \<^verbatim>\<open>'WATC'\<close> and creating the
  WATC client raises \<^verbatim>\<open>FDSNException\<close>; and whenever it returns \<^verbatim>\<open>None\<close> it has issued
  no waveform request.
\<close>

theorem gather_waveforms_None_iff:
  "(snd (gather_waveforms srv source network station starttime endtime u p) = Returned_None
      \<longleftrightarrow>
    (source \<noteq> ''IRIS'' \<and> source \<noteq> ''WATC'' \<and> source \<noteq> ''AVO'') \<or>
    (source = ''WATC'' \<and> FDSN_Client_WATC srv u p = Some FDSNException)) \<and>
   (snd (gather_waveforms srv source network station starttime endtime u p) = Returned_None
      \<longrightarrow> fst (gather_waveforms srv source network station starttime endtime u p) = [])"
proof -
  consider "source = ''IRIS''" | "source = ''WATC''" | "source = ''AVO''"
    | "source \<noteq> ''IRIS''" "source \<noteq> ''WATC''" "source \<noteq> ''AVO''"
    by blast
  then show ?thesis
  proof cases
    case 1
    show ?thesis
      unfolding 1 gather_waveforms_IRIS by (simp add: sort_and_return_not_None)
  next
    case 2
    show ?thesis
    proof (cases "FDSN_Client_WATC srv u p")
      case None
      show ?thesis
        unfolding 2 gather_waveforms_WATC None by (simp add: sort_and_return_not_None)
    next
      case (Some e)
      show ?thesis
        unfolding 2 gather_waveforms_WATC Some by (cases e) simp_all
    qed
  next
    case 3
    obtain q where "gather_waveforms srv ''AVO'' network station starttime endtime u p =
        sort_and_return q"
      using gather_waveforms_AVO_ex by blast
    then show ?thesis
      unfolding 3 by (simp add: sort_and_return_not_None)
  next
    case 4
    then show ?thesis by (simp add: gather_waveforms_unrecognized)
  qed
qed

theorem gather_waveforms_None_iff_witness:
  "FDSN_Client_WATC srv_no_vpn None None = Some FDSNException \<and>
   snd (gather_waveforms srv_no_vpn ''WATC'' ''AV'' ''DLL'' 0 60 None None) = Returned_None \<and>
   fst (gather_waveforms srv_no_vpn ''WATC'' ''AV'' ''DLL'' 0 60 None None) = [] \<and>
   snd (gather_waveforms srv_up ''USGS'' ''AV'' ''DLL'' 0 60 None None) = Returned_None \<and>
   fst (gather_waveforms srv_up ''USGS'' ''AV'' ''DLL'' 0 60 None None) = [] \<and>
   snd (gather_waveforms srv_up ''WATC'' ''AV'' ''DLL'' 0 60 None None) \<noteq> Returned_None"
proof -
  have c: "FDSN_Client_WATC srv_no_vpn None None = Some FDSNException"
    by (simp add: srv_no_vpn_def)
  have d: "FDSN_Client_WATC srv_up None None = None"
    by (simp add: srv_up_def)
  note a = gather_waveforms_None_iff[of srv_no_vpn "''WATC''" "''AV''" "''DLL''" 0 60 None None]
  note b = gather_waveforms_None_iff[of srv_up "''USGS''" "''AV''" "''DLL''" 0 60 None None]
  note e = gather_waveforms_None_iff[of srv_up "''WATC''" "''AV''" "''DLL''" 0 60 None None]
  from a c have
    "snd (gather_waveforms srv_no_vpn ''WATC'' ''AV'' ''DLL'' 0 60 None None) = Returned_None"
    "fst (gather_waveforms srv_no_vpn ''WATC'' ''AV'' ''DLL'' 0 60 None None) = []"
    by simp_all
  moreover from b have
    "snd (gather_waveforms srv_up ''USGS'' ''AV'' ''DLL'' 0 60 None None) = Returned_None"
    "fst (gather_waveforms srv_up ''USGS'' ''AV'' ''DLL'' 0 60 None None) = []"
    by simp_all
  moreover from e d have
    "snd (gather_waveforms srv_up ''WATC'' ''AV'' ''DLL'' 0 60 None None) \<noteq> Returned_None"
    by simp
  ultimately show ?thesis using c by simp
qed

lemma request1_avo_client:
  "request1 srv avo_client r = request_each srv [r] [] []"
  by (simp add: request1_def split: sum.splits)

lemma gathered_Nil: "gathered srv [] = []"
  by (simp add: gathered_def)

lemma gathered_append: "gathered srv (xs @ ys) = gathered srv xs @ gathered srv ys"
  by (simp add: gathered_def)

lemma gathered_single:
  "get_waveforms srv cl r = Inr st \<Longrightarrow> gathered srv [(cl, r)] = st"
  by (simp add: gathered_def)

lemma request_each_Inr:
  assumes "request_each srv rs issued0 st0 = (issued, Inr st_out)"
  shows "issued = issued0 @ map (Pair avo_client) rs \<and>
         st_out = st0 @ gathered srv (map (Pair avo_client) rs)"
  using assms
proof (induction rs arbitrary: issued0 st0)
  case Nil
  then show ?case by (simp add: gathered_Nil)
next
  case (Cons r rs)
  show ?case
  proof (cases "get_waveforms srv avo_client r")
    case (Inl e)
    then show ?thesis using Cons.prems by simp
  next
    case (Inr st)
    have "request_each srv rs (issued0 @ [(avo_client, r)]) (st0 @ st) = (issued, Inr st_out)"
      using Cons.prems Inr by simp
    from Cons.IH[OF this]
    have "issued = (issued0 @ [(avo_client, r)]) @ map (Pair avo_client) rs"
      and "st_out = (st0 @ st) @ gathered srv (map (Pair avo_client) rs)"
      by simp_all
    moreover have "gathered srv (map (Pair avo_client) (r # rs)) =
        st @ gathered srv (map (Pair avo_client) rs)"
      using gathered_append[of srv "[(avo_client, r)]" "map (Pair avo_client) rs"]
        gathered_single[OF Inr]
      by simp
    ultimately show ?thesis by simp
  qed
qed

lemma request1_Inr:
  assumes "request1 srv cl r = (issued, Inr st_out)"
  shows "st_out = gathered srv issued"
  using assms by (auto simp: request1_def gathered_single)

lemma sort_and_return_Returned_eq:
  assumes "sort_and_return q = (issued, Returned st)"
  shows "\<exists>st_out. q = (issued, Inr st_out) \<and> st = Stream_sort st_out"
  using assms by (cases q) (auto simp: sort_and_return_def split: sum.splits)

lemma gather_waveforms_AVO_each:
  "\<exists>rs. gather_waveforms srv ''AVO'' network station starttime endtime u p =
     sort_and_return (request_each srv rs [] [])"
proof (cases "station \<in> set [''ADKI'', ''AKS'', ''DLL'', ''OKIF'', ''SDPI'']")
  case array: True
  show ?thesis
  proof (cases "station = ''AKS''")
    case True
    show ?thesis
      unfolding gather_waveforms_AVO Let_def if_P[OF array] if_P[OF True] by blast
  next
    case False
    show ?thesis
      unfolding gather_waveforms_AVO Let_def if_P[OF array] if_not_P[OF False] by blast
  qed
next
  case False
  show ?thesis
    unfolding gather_waveforms_AVO if_not_P[OF False] request1_avo_client by blast
qed

lemma gather_waveforms_Returned_gathered:
  assumes "gather_waveforms srv source network station starttime endtime u p =
     (issued, Returned st)"
  shows "st = Stream_sort (gathered srv issued)"
proof -
  consider "source = ''IRIS''" | "source = ''WATC''" | "source = ''AVO''"
    | "source \<noteq> ''IRIS''" "source \<noteq> ''WATC''" "source \<noteq> ''AVO''"
    by blast
  then show ?thesis
  proof cases
    case 1
    obtain st_out where
      "request1 srv iris_client (network, station, ''*'', ''BDF,HDF'', starttime, endtime) =
         (issued, Inr st_out)" and "st = Stream_sort st_out"
      using assms sort_and_return_Returned_eq unfolding 1 gather_waveforms_IRIS by blast
    then show ?thesis using request1_Inr by blast
  next
    case 2
    show ?thesis
    proof (cases "FDSN_Client_WATC srv u p")
      case None
      have "sort_and_return
          (request1 srv watc_client
             (network, station, ''*'', ''BDF,HDF'', starttime, endtime)) =
          (issued, Returned st)"
        using assms unfolding 2 gather_waveforms_WATC None by simp
      then obtain st_out where
        "request1 srv watc_client (network, station, ''*'', ''BDF,HDF'', starttime, endtime) =
           (issued, Inr st_out)" and "st = Stream_sort st_out"
        using sort_and_return_Returned_eq by blast
      then show ?thesis using request1_Inr by blast
    next
      case (Some e)
      show ?thesis
        using assms unfolding 2 gather_waveforms_WATC Some by (cases e) simp_all
    qed
  next
    case 3
    obtain rs where "gather_waveforms srv ''AVO'' network station starttime endtime u p =
        sort_and_return (request_each srv rs [] [])"
      using gather_waveforms_AVO_each by blast
    then have "sort_and_return (request_each srv rs [] []) = (issued, Returned st)"
      using assms unfolding 3 by simp
    then obtain st_out where q: "request_each srv rs [] [] = (issued, Inr st_out)"
      and st: "st = Stream_sort st_out"
      using sort_and_return_Returned_eq by blast
    from request_each_Inr[OF q] have "st_out = gathered srv issued" by simp
    then show ?thesis using st by simp
  next
    case 4
    then show ?thesis using assms by (simp add: gather_waveforms_unrecognized)
  qed
qed

text \<open>
  A stable sort by a key leaves in place the elements of any class on which the key is
  constant; \<^verbatim>\<open>Stream.sort\<close> keeps the arrival order of the traces that agree on all six
  default keys.
\<close>

lemma filter_sort_key_const:
  fixes f :: "'a \<Rightarrow> 'k::linorder"
  assumes "\<And>x. P x \<Longrightarrow> f x = c"
  shows "filter P (sort_key f xs) = filter P xs"
proof -
  have "map f (filter P xs) = replicate (length (filter P xs)) c"
    using assms by (induction xs) auto
  then have "sorted (map f (filter P xs))" by (simp add: sorted_replicate)
  then have "sort_key f (filter P xs) = filter P xs"
    by (rule sort_key_id_if_sorted)
  then show ?thesis by (simp add: filter_sort)
qed

lemma filter_Stream_sort:
  "filter (\<lambda>tr. default_keys tr = k) (Stream_sort st) = filter (\<lambda>tr. default_keys tr = k) st"
proof -
  obtain k1 k2 k3 k4 k5 k6 where k: "k = (k1, k2, k3, k4, k5, k6)"
    by (cases k) auto
  let ?P = "\<lambda>tr. default_keys tr = k"
  have 1: "filter ?P (sort_key stats_network xs) = filter ?P xs" for xs
    by (rule filter_sort_key_const[where c = k1]) (simp add: default_keys_def k)
  have 2: "filter ?P (sort_key stats_station xs) = filter ?P xs" for xs
    by (rule filter_sort_key_const[where c = k2]) (simp add: default_keys_def k)
  have 3: "filter ?P (sort_key stats_location xs) = filter ?P xs" for xs
    by (rule filter_sort_key_const[where c = k3]) (simp add: default_keys_def k)
  have 4: "filter ?P (sort_key stats_channel xs) = filter ?P xs" for xs
    by (rule filter_sort_key_const[where c = k4]) (simp add: default_keys_def k)
  have 5: "filter ?P (sort_key stats_starttime xs) = filter ?P xs" for xs
    by (rule filter_sort_key_const[where c = k5]) (simp add: default_keys_def k)
  have 6: "filter ?P (sort_key stats_endtime xs) = filter ?P xs" for xs
    by (rule filter_sort_key_const[where c = k6]) (simp add: default_keys_def k)
  show ?thesis
    unfolding Stream_sort_def by (simp only: 1 2 3 4 5 6)
qed

lemma Stream_sort_sample: "Stream_sort [tr_02, tr_01] = [tr_01, tr_02]"
  by (simp add: Stream_sort_def tr_01_def tr_02_def less_eq_char_def)

lemma Stream_sort_ab: "Stream_sort [tr_a, tr_b] = [tr_a, tr_b]"
  by (simp add: Stream_sort_def tr_a_def tr_b_def)

lemma Stream_sort_ba: "Stream_sort [tr_b, tr_a] = [tr_b, tr_a]"
  by (simp add: Stream_sort_def tr_a_def tr_b_def)

text \<open>
  C10, as the specification states it, fails: the order of the returned traces is not
  independent of the order of arrival. The servers \<open>srv_ab\<close> and \<open>srv_ba\<close> answer the one
  request of the source \<^verbatim>\<open>'IRIS'\<close> with the same two traces, which agree on all six
  default keys, in opposite orders; \<^verbatim>\<open>Stream.sort\<close> is stable, and the two calls return
  the traces in opposite orders.
\<close>

theorem gather_waveforms_order_counterexample:
  "mset (gathered srv_ab [(iris_client, ''AV'', ''DLL'', ''*'', ''BDF,HDF'', 0, 60)]) =
   mset (gathered srv_ba [(iris_client, ''AV'', ''DLL'', ''*'', ''BDF,HDF'', 0, 60)]) \<and>
   gather_waveforms srv_ab ''IRIS'' ''AV'' ''DLL'' 0 60 None None =
     ([(iris_client, ''AV'', ''DLL'', ''*'', ''BDF,HDF'', 0, 60)], Returned [tr_a, tr_b]) \<and>
   gather_waveforms srv_ba ''IRIS'' ''AV'' ''DLL'' 0 60 None None =
     ([(iris_client, ''AV'', ''DLL'', ''*'', ''BDF,HDF'', 0, 60)], Returned [tr_b, tr_a]) \<and>
   [tr_a, tr_b] \<noteq> [tr_b, tr_a]"
proof -
  have "tr_a \<noteq> tr_b" by (simp add: tr_a_def tr_b_def tr_01_def)
  then have "[tr_a, tr_b] \<noteq> [tr_b, tr_a]" by simp
  moreover have
    "gather_waveforms srv_ab ''IRIS'' ''AV'' ''DLL'' 0 60 None None =
       ([(iris_client, ''AV'', ''DLL'', ''*'', ''BDF,HDF'', 0, 60)], Returned [tr_a, tr_b])"
    by (simp add: gather_waveforms_IRIS sort_and_return_def request1_def srv_ab_def
        Stream_sort_ab)
  moreover have
    "gather_waveforms srv_ba ''IRIS'' ''AV'' ''DLL'' 0 60 None None =
       ([(iris_client, ''AV'', ''DLL'', ''*'', ''BDF,HDF'', 0, 60)], Returned [tr_b, tr_a])"
    by (simp add: gather_waveforms_IRIS sort_and_return_def request1_def srv_ba_def
        Stream_sort_ba)
  moreover have
    "mset (gathered srv_ab [(iris_client, ''AV'', ''DLL'', ''*'', ''BDF,HDF'', 0, 60)]) =
     mset (gathered srv_ba [(iris_client, ''AV'', ''DLL'', ''*'', ''BDF,HDF'', 0, 60)])"
    by (simp add: gathered_def srv_ab_def srv_ba_def add.commute)
  ultimately show ?thesis by simp
qed

text \<open>
  C10, amended. Whenever \<^verbatim>\<open>gather_waveforms\<close> returns a stream, whatever the source, the
  stream is the result of \<^verbatim>\<open>Stream.sort\<close> in its default order on the traces gathered by
  the requests issued: it holds exactly the gathered traces, it is sorted by network,
  station, location, channel, start time and end time, in this priority, and the traces
  that agree on all six keys stand in their order of arrival. The sequence of the keys
  does not depend on the order of arrival: the same traces gathered in any other order
  sort to the same sequence of keys.
\<close>

theorem gather_waveforms_returns_sorted:
  assumes "gather_waveforms srv source network station starttime endtime u p =
     (issued, Returned st)"
  shows "st = Stream_sort (gathered srv issued) \<and>
         mset st = mset (gathered srv issued) \<and>
         sorted (map default_keys st) \<and>
         (\<forall>k. filter (\<lambda>tr. default_keys tr = k) st =
               filter (\<lambda>tr. default_keys tr = k) (gathered srv issued)) \<and>
         (\<forall>st'. mset st' = mset (gathered srv issued) \<longrightarrow>
            map default_keys (Stream_sort st') = map default_keys st)"
proof -
  have st: "st = Stream_sort (gathered srv issued)"
    by (rule gather_waveforms_Returned_gathered[OF assms])
  have "mset st = mset (gathered srv issued)"
    unfolding st by (rule mset_Stream_sort)
  moreover have "sorted (map default_keys st)"
    unfolding st by (rule sorted_Stream_sort)
  moreover have "filter (\<lambda>tr. default_keys tr = k) st =
      filter (\<lambda>tr. default_keys tr = k) (gathered srv issued)" for k
    unfolding st by (rule filter_Stream_sort)
  moreover have "map default_keys (Stream_sort st') = map default_keys st"
    if "mset st' = mset (gathered srv issued)" for st'
    unfolding st using that by (rule keys_Stream_sort_perm)
  ultimately show ?thesis using st by blast
qed

theorem gather_waveforms_returns_sorted_witness:
  "gather_waveforms srv_up ''IRIS'' ''AV'' ''DLL'' 0 60 None None =
     ([(iris_client, ''AV'', ''DLL'', ''*'', ''BDF,HDF'', 0, 60)], Returned [tr_01, tr_02]) \<and>
   gathered srv_up [(iris_client, ''AV'', ''DLL'', ''*'', ''BDF,HDF'', 0, 60)] =
     [tr_02, tr_01] \<and>
   [tr_01, tr_02] = Stream_sort [tr_02, tr_01] \<and>
   mset [tr_01, tr_02] = mset [tr_02, tr_01] \<and>
   sorted (map default_keys [tr_01, tr_02])"
proof -
  have r: "gather_waveforms srv_up ''IRIS'' ''AV'' ''DLL'' 0 60 None None =
      ([(iris_client, ''AV'', ''DLL'', ''*'', ''BDF,HDF'', 0, 60)], Returned [tr_01, tr_02])"
    by (simp add: gather_waveforms_IRIS sort_and_return_def request1_def srv_up_def
        Stream_sort_sample)
  have g: "gathered srv_up [(iris_client, ''AV'', ''DLL'', ''*'', ''BDF,HDF'', 0, 60)] =
      [tr_02, tr_01]"
    by (simp add: gathered_def srv_up_def)
  from gather_waveforms_returns_sorted[OF r] show ?thesis
    unfolding g using r g by blast
qed

section \<open>Properties of the grid search's volume\<close>

lemma peak_indices_in_range:
  assumes "peaks S \<noteq> []"
  shows "Min (x_index ` set (peaks S)) < length (x_coords S)"
    and "Min (y_index ` set (peaks S)) < length (y_coords S)"
    and "Min (time_index ` set (peaks S)) < length (time_coords S)"
    and "Min (celerity_index ` set (peaks S)) < length (celerity_coords S)"
proof -
  have sub: "set (peaks S) \<subseteq> set (cells S)" by (auto simp: peaks_def)
  have fin: "finite (set (peaks S))" and ne: "set (peaks S) \<noteq> {}" using assms by simp_all
  have "Min (x_index ` set (peaks S)) \<in> x_index ` set (peaks S)"
    using fin ne by (intro Min_in) simp_all
  then show "Min (x_index ` set (peaks S)) < length (x_coords S)"
    using sub by (auto simp: set_cells)
  have "Min (y_index ` set (peaks S)) \<in> y_index ` set (peaks S)"
    using fin ne by (intro Min_in) simp_all
  then show "Min (y_index ` set (peaks S)) < length (y_coords S)"
    using sub by (auto simp: set_cells)
  have "Min (time_index ` set (peaks S)) \<in> time_index ` set (peaks S)"
    using fin ne by (intro Min_in) simp_all
  then show "Min (time_index ` set (peaks S)) < length (time_coords S)"
    using sub by (auto simp: set_cells)
  have "Min (celerity_index ` set (peaks S)) \<in> celerity_index ` set (peaks S)"
    using fin ne by (intro Min_in) simp_all
  then show "Min (celerity_index ` set (peaks S)) < length (celerity_coords S)"
    using sub by (auto simp: set_cells)
qed

lemma max_coords_reads_axes:
  assumes "cells S \<noteq> []"
  shows "\<exists>mx my mt mc. max_coords S = Inr (mx, my, mt, mc) \<and> mx \<in> set (x_coords S) \<and>
           my \<in> set (y_coords S) \<and> mt \<in> set (time_coords S) \<and>
           mc \<in> set (celerity_coords S)"
proof -
  obtain m where m: "S_max S = Inr m" "peaks S \<noteq> []"
    using S_max_attained[OF assms] by blast
  note r = peak_indices_in_range[OF m(2)]
  show ?thesis
    unfolding max_coords_Min[OF m] using r by (simp add: nth_mem)
qed

text \<open>
  C8. A volume that the grid search produces has the four dimensions x, y, time and
  celerity: its x and y coordinates are those of the grid, its celerity coordinates are
  the celerity list, its time axis has one coordinate for every sample of the waveforms,
  and, the waveforms holding at least one sample, the peak step reads from it one
  coordinate value of every one of the four axes.
\<close>

theorem grid_search_four_dimensions:
  assumes "grid_search stack time_base processed_st grid_x grid_y grid_UTM celerity_list = Inr S"
  shows "x_coords S = grid_x \<and> y_coords S = grid_y \<and> celerity_coords S = celerity_list \<and>
         length (time_coords S) = length (waveform (hd processed_st)) \<and>
         x_coords S \<noteq> [] \<and> y_coords S \<noteq> [] \<and> celerity_coords S \<noteq> [] \<and>
         (waveform (hd processed_st) \<noteq> [] \<longrightarrow>
            (\<exists>mx my mt mc. max_coords S = Inr (mx, my, mt, mc) \<and> mx \<in> set (x_coords S) \<and>
               my \<in> set (y_coords S) \<and> mt \<in> set (time_coords S) \<and>
               mc \<in> set (celerity_coords S)))"
proof -
  have ne: "grid_x \<noteq> []" "grid_y \<noteq> []" "celerity_list \<noteq> []"
    using assms by (auto simp: grid_search_def split: if_splits)
  have S: "S = \<lparr> x_coords = grid_x, y_coords = grid_y,
      time_coords = map time_base [0 ..< length (waveform (hd processed_st))],
      celerity_coords = celerity_list, vals = stack, UTM = grid_UTM \<rparr>"
    using assms by (auto simp: grid_search_def split: if_splits)
  have shape: "x_coords S = grid_x" "y_coords S = grid_y" "celerity_coords S = celerity_list"
    "length (time_coords S) = length (waveform (hd processed_st))"
    by (simp_all add: S)
  have "\<exists>mx my mt mc. max_coords S = Inr (mx, my, mt, mc) \<and> mx \<in> set (x_coords S) \<and>
      my \<in> set (y_coords S) \<and> mt \<in> set (time_coords S) \<and> mc \<in> set (celerity_coords S)"
    if "waveform (hd processed_st) \<noteq> []"
  proof -
    have "time_coords S \<noteq> []" using that shape(4) by auto
    then have "cells S \<noteq> []" using ne shape by (simp add: cells_Nil_iff)
    then show ?thesis by (rule max_coords_reads_axes)
  qed
  then show ?thesis using ne shape by simp
qed

lemma max_coords_S_gs: "max_coords S_gs = Inr (20, 30, 2, 300)"
  by (simp add: max_coords_def S_max_def cells_def S_gs_def upt_rec where_drop_def nonzero_def
      unique_def first_coords_def Let_def)

theorem grid_search_four_dimensions_witness:
  "grid_search (vals S_gs) real [sta_1] [10, 20] [30, 40] None [295, 300, 305] = Inr S_gs \<and>
   waveform (hd [sta_1]) \<noteq> [] \<and>
   x_coords S_gs = [10, 20] \<and> y_coords S_gs = [30, 40] \<and>
   celerity_coords S_gs = [295, 300, 305] \<and> length (time_coords S_gs) = 3 \<and>
   max_coords S_gs = Inr (20, 30, 2, 300)"
proof -
  have g: "grid_search (vals S_gs) real [sta_1] [10, 20] [30, 40] None [295, 300, 305] =
      Inr S_gs"
    by (simp add: grid_search_def sta_1_def S_gs_def upt_rec)
  have w: "waveform (hd [sta_1]) \<noteq> []" "length (waveform (hd [sta_1])) = 3"
    by (simp_all add: sta_1_def)
  from grid_search_four_dimensions[OF g] w
  have "x_coords S_gs = [10, 20] \<and> y_coords S_gs = [30, 40] \<and>
      celerity_coords S_gs = [295, 300, 305] \<and> length (time_coords S_gs) = 3"
    by simp
  then show ?thesis using g w max_coords_S_gs by simp
qed

end
